theory Spec2Isabelle
  imports Complex_Main
begin

section \<open>LeNet5 on MNIST with Chainer: the notebook \<^verbatim>\<open>chainer/mnist_lenet.ipynb\<close>\<close>

text \<open>
  The notebook authors one class, \<^verbatim>\<open>LeNet5\<close> (a constructor and a forward pass), and
  configures library objects: two \<^verbatim>\<open>SerialIterator\<close>s, an optimizer, a trainer and its
  extensions. The library itself (Chainer) is not part of the repository. Its operations are
  modelled here from the specification and from their documented behaviour, each under a
  comment that says so; the forward pass, the constructor and the configuration values are
  translated from the notebook.

  Array elements are \<^typ>\<open>real\<close>: the model idealises \<^verbatim>\<open>float32\<close>.
\<close>

subsection \<open>Arrays\<close>

text \<open>
  A \<^verbatim>\<open>numpy.ndarray\<close>: a shape and a flat buffer in row-major (C) order. An array is
  \<open>valid\<close> when the buffer has exactly as many elements as the shape says.
\<close>

record ndarray =
  shape :: "nat list"
  data :: "real list"

definition ndim :: "ndarray \<Rightarrow> nat" where
  "ndim a = length (shape a)"

definition valid :: "ndarray \<Rightarrow> bool" where
  "valid a = (length (data a) = prod_list (shape a))"

text \<open>
  The errors the library raises in the operations used by the notebook: a failed type check,
  a sliding window larger than its input, and numpy's refusal of a reshape.
\<close>

datatype error = InvalidType | NonPositiveOutputSize | ValueError

text \<open>Element \<open>a[n, c, y, x]\<close> of a 4-dimensional array.\<close>

definition at4 :: "ndarray \<Rightarrow> nat \<Rightarrow> nat \<Rightarrow> nat \<Rightarrow> nat \<Rightarrow> real" where
  "at4 a n c y x =
     data a ! (((n * (shape a ! 1) + c) * (shape a ! 2) + y) * (shape a ! 3) + x)"

text \<open>Element \<open>a[n, i]\<close> of an array seen as a matrix with rows of length \<open>m\<close>.\<close>

definition at2 :: "ndarray \<Rightarrow> nat \<Rightarrow> nat \<Rightarrow> nat \<Rightarrow> real" where
  "at2 a m n i = data a ! (n * m + i)"

text \<open>The buffers of a new 4-dimensional and of a new 2-dimensional array, element by element.\<close>

definition tabulate4 ::
  "nat \<Rightarrow> nat \<Rightarrow> nat \<Rightarrow> nat \<Rightarrow> (nat \<Rightarrow> nat \<Rightarrow> nat \<Rightarrow> nat \<Rightarrow> real) \<Rightarrow> real list" where
  "tabulate4 N C H W f =
     concat (map (\<lambda>n. concat (map (\<lambda>c. concat (map (\<lambda>y. map (\<lambda>x. f n c y x) [0..<W])
       [0..<H])) [0..<C])) [0..<N])"

definition tabulate2 :: "nat \<Rightarrow> nat \<Rightarrow> (nat \<Rightarrow> nat \<Rightarrow> real) \<Rightarrow> real list" where
  "tabulate2 N M f = concat (map (\<lambda>n. map (\<lambda>i. f n i) [0..<M]) [0..<N])"

subsection \<open>The library's functions and links\<close>

text \<open>
  Reading \<open>a[n, c, y - ph, x - pw]\<close> through a border of \<open>ph\<close> rows and \<open>pw\<close> columns of
  zeros on each side: what the library's \<^verbatim>\<open>im2col\<close> reads for a convolution with padding.
\<close>

definition padded_at :: "ndarray \<Rightarrow> nat \<Rightarrow> nat \<Rightarrow> nat \<Rightarrow> nat \<Rightarrow> nat \<Rightarrow> nat \<Rightarrow> real" where
  "padded_at a ph pw n c y x =
     (if ph \<le> y \<and> y < shape a ! 2 + ph \<and> pw \<le> x \<and> x < shape a ! 3 + pw
      then at4 a n c (y - ph) (x - pw) else 0)"

text \<open>
  \<^verbatim>\<open>L.Convolution2D(in_channels, out_channels, ksize, pad=p)\<close>: the link holds a kernel
  \<open>W\<close> of shape \<open>(out, in, k, k)\<close>, a bias \<open>b\<close> of shape \<open>(out)\<close> and its padding; the stride
  is the default 1.
\<close>

record Convolution2D =
  conv_W :: ndarray
  conv_b :: ndarray
  conv_pad :: nat

text \<open>
  Modelled from the spec: \<^verbatim>\<open>Convolution2D.__call__\<close> is library code, absent from the
  repository. "conv(in\<rightarrow>out, kernel k)": the type check wants a 4-dimensional input whose
  channel count is the kernel's, and a bias with one entry per output channel; the output
  has \<open>H + 2p - k + 1\<close> rows and \<open>W + 2p - k + 1\<close> columns (a padded input smaller than
  the kernel is refused), and
  \<open>y[n, o, i, j] = \<Sum>c, u, v. W[o, c, u, v] * x\<^sub>p\<^sub>a\<^sub>d[n, c, i + u, j + v] + b[o]\<close>.
\<close>

definition Convolution2D_call :: "Convolution2D \<Rightarrow> ndarray \<Rightarrow> error + ndarray" where
  "Convolution2D_call l x =
     (let W = conv_W l; b = conv_b l; p = conv_pad l in
      if ndim x = 4 \<and> ndim W = 4 \<and> shape x ! 1 = shape W ! 1 \<and> shape b = [shape W ! 0]
      then
        (let N = shape x ! 0; C = shape W ! 1; out = shape W ! 0;
             kh = shape W ! 2; kw = shape W ! 3;
             H = shape x ! 2 + 2 * p; Wd = shape x ! 3 + 2 * p in
         if kh \<le> H \<and> kw \<le> Wd
         then Inr \<lparr>shape = [N, out, H - kh + 1, Wd - kw + 1],
                   data = tabulate4 N out (H - kh + 1) (Wd - kw + 1)
                     (\<lambda>n oc i j.
                        sum_list (concat (map (\<lambda>c. concat (map (\<lambda>u. map (\<lambda>v.
                          at4 W oc c u v * padded_at x p p n c (i + u) (j + v))
                          [0..<kw]) [0..<kh])) [0..<C]))
                        + data b ! oc)\<rparr>
         else Inl NonPositiveOutputSize)
      else Inl InvalidType)"

text \<open>
  Modelled from the spec: "pad input to 32\<times>32". The notebook's comment gives the border:
  "we add the padding of size (32 - 28) / 2 = 2", on each side of both image axes.
\<close>

definition zero_pad :: "nat \<Rightarrow> nat \<Rightarrow> ndarray \<Rightarrow> ndarray" where
  "zero_pad ph pw x =
     (let N = shape x ! 0; C = shape x ! 1; H = shape x ! 2 + 2 * ph; W = shape x ! 3 + 2 * pw
      in \<lparr>shape = [N, C, H, W], data = tabulate4 N C H W (padded_at x ph pw)\<rparr>)"

definition pad_to :: "nat \<Rightarrow> ndarray \<Rightarrow> error + ndarray" where
  "pad_to t x =
     (if ndim x = 4 \<and> shape x ! 2 \<le> t \<and> shape x ! 3 \<le> t
         \<and> even (t - shape x ! 2) \<and> even (t - shape x ! 3)
      then Inr (zero_pad ((t - shape x ! 2) div 2) ((t - shape x ! 3) div 2) x)
      else Inl InvalidType)"

text \<open>
  Modelled from the spec: \<^verbatim>\<open>F.tanh\<close> is library code, absent from the repository.
  "tanh": the hyperbolic tangent of every element; the shape is kept and no input is refused.
\<close>

definition F_tanh :: "ndarray \<Rightarrow> error + ndarray" where
  "F_tanh x = Inr (x\<lparr>data := map tanh (data x)\<rparr>)"

text \<open>
  The library's output size of a sliding window of size \<open>k\<close>, stride \<open>s\<close> and padding \<open>p\<close>
  over \<open>sz\<close> positions, in Python's integers (\<open>//\<close> rounds down, as \<open>div\<close> does).
\<close>

definition get_conv_outsize :: "int \<Rightarrow> int \<Rightarrow> int \<Rightarrow> int \<Rightarrow> bool \<Rightarrow> int" where
  "get_conv_outsize sz k s p cover_all =
     (if cover_all then (sz + p * 2 - k + s - 1) div s + 1 else (sz + p * 2 - k) div s + 1)"

text \<open>
  Modelled from the spec: \<^verbatim>\<open>F.max_pooling_2d(x, ksize)\<close> is library code, absent from the
  repository. "max-pool(k)": windows of \<open>k \<times> k\<close> at stride \<open>k\<close> (the default stride is the
  window size), no padding, every input position covered (the library's default
  \<^verbatim>\<open>cover_all=True\<close>); each output is the maximum of the input elements its window holds.
\<close>

definition F_max_pooling_2d :: "nat \<Rightarrow> ndarray \<Rightarrow> error + ndarray" where
  "F_max_pooling_2d k x =
     (if ndim x = 4 \<and> 0 < k
      then
        (let N = shape x ! 0; C = shape x ! 1; H = shape x ! 2; W = shape x ! 3;
             oh = nat (get_conv_outsize (int H) (int k) (int k) 0 True);
             ow = nat (get_conv_outsize (int W) (int k) (int k) 0 True)
         in Inr \<lparr>shape = [N, C, oh, ow],
                  data = tabulate4 N C oh ow
                    (\<lambda>n c i j. Max (set (concat (map (\<lambda>u. map (\<lambda>v. at4 x n c u v)
                       [j * k..<min (j * k + k) W]) [i * k..<min (i * k + k) H]))))\<rparr>)
      else Inl InvalidType)"

text \<open>
  \<^verbatim>\<open>L.Linear(in_size, out_size)\<close>: the link holds a matrix \<open>W\<close> of shape \<open>(out, in)\<close> and a
  bias \<open>b\<close> of shape \<open>(out)\<close>.
\<close>

record Linear =
  lin_W :: ndarray
  lin_b :: ndarray

text \<open>
  Modelled from the spec: \<^verbatim>\<open>Linear.__call__\<close> is library code, absent from the repository.
  "linear(in\<rightarrow>out)": \<open>y = x W\<^sup>T + b\<close>. The library takes an input of two or more dimensions;
  the type check wants the product of the axes after the first to be the matrix's \<open>in\<close>.
  An input that is not a matrix already is made one by \<^verbatim>\<open>x.reshape(len(x), -1)\<close> (so the
  notebook needs no flatten step), and numpy raises \<^verbatim>\<open>ValueError\<close> for that reshape
  when the batch is empty: it cannot tell the row length of an array without elements.
\<close>

definition Linear_call :: "Linear \<Rightarrow> ndarray \<Rightarrow> error + ndarray" where
  "Linear_call l x =
     (let W = lin_W l; b = lin_b l in
      if 2 \<le> ndim x \<and> ndim W = 2 \<and> prod_list (tl (shape x)) = shape W ! 1
         \<and> shape b = [shape W ! 0]
      then
        (if ndim x = 2 \<or> 0 < shape x ! 0
         then
           (let N = shape x ! 0; n_in = shape W ! 1; n_out = shape W ! 0 in
            Inr \<lparr>shape = [N, n_out],
                 data = tabulate2 N n_out
                   (\<lambda>n oc. sum_list (map (\<lambda>i. at2 x n_in n i * at2 W n_in oc i) [0..<n_in])
                            + data b ! oc)\<rparr>)
         else Inl ValueError)
      else Inl InvalidType)"

text \<open>
  Modelled from the spec: "flatten". All axes after the first become one; the buffer is
  unchanged. The specification's step is defined for every batch, the empty one included.
\<close>

definition flatten :: "ndarray \<Rightarrow> error + ndarray" where
  "flatten x =
     (if 1 \<le> ndim x then Inr (x\<lparr>shape := [shape x ! 0, prod_list (tl (shape x))]\<rparr>)
      else Inl InvalidType)"

subsection \<open>The notebook's model: class \<^verbatim>\<open>LeNet5\<close>\<close>

text \<open>
  The object: the five links registered by \<^verbatim>\<open>__init__\<close> and the attribute
  \<^verbatim>\<open>self.train\<close>.
\<close>

record LeNet5 =
  conv1 :: Convolution2D
  conv2 :: Convolution2D
  fc1 :: Linear
  fc2 :: Linear
  fc3 :: Linear
  train :: bool

text \<open>
  The links' constructors allocate the parameters with the declared shapes. The kernel's and
  the matrix's initial values are drawn by the library's initialiser, here a parameter \<open>g\<close>
  giving the value at each buffer position; the biases start at zero.
\<close>

definition Convolution2D_init :: "nat \<Rightarrow> nat \<Rightarrow> nat \<Rightarrow> nat \<Rightarrow> (nat \<Rightarrow> real) \<Rightarrow> Convolution2D" where
  "Convolution2D_init in_channels out_channels ksize p g =
     \<lparr>conv_W = \<lparr>shape = [out_channels, in_channels, ksize, ksize],
                data = map g [0..<out_channels * in_channels * ksize * ksize]\<rparr>,
      conv_b = \<lparr>shape = [out_channels], data = replicate out_channels 0\<rparr>,
      conv_pad = p\<rparr>"

definition Linear_init :: "nat \<Rightarrow> nat \<Rightarrow> (nat \<Rightarrow> real) \<Rightarrow> Linear" where
  "Linear_init in_size out_size g =
     \<lparr>lin_W = \<lparr>shape = [out_size, in_size], data = map g [0..<out_size * in_size]\<rparr>,
      lin_b = \<lparr>shape = [out_size], data = replicate out_size 0\<rparr>\<rparr>"

text \<open>\<^verbatim>\<open>LeNet5.__init__\<close>, with one initialiser per link.\<close>

definition LeNet5_init ::
  "(nat \<Rightarrow> real) \<Rightarrow> (nat \<Rightarrow> real) \<Rightarrow> (nat \<Rightarrow> real) \<Rightarrow> (nat \<Rightarrow> real) \<Rightarrow> (nat \<Rightarrow> real) \<Rightarrow> LeNet5" where
  "LeNet5_init g1 g2 g3 g4 g5 =
     \<lparr>conv1 = Convolution2D_init 1 6 5 2 g1,
      conv2 = Convolution2D_init 6 16 5 0 g2,
      fc1 = Linear_init 400 120 g3,
      fc2 = Linear_init 120 84 g4,
      fc3 = Linear_init 84 10 g5,
      train = True\<rparr>"

text \<open>
  What the constructor establishes and an optimizer's update keeps (it writes new values
  into the buffers, never a new shape): every parameter is a valid array of its declared
  shape. The theorems about the forward pass hold for every such object, whatever its
  parameter values, so for the model at any point of the training.
\<close>

definition conv_declared :: "Convolution2D \<Rightarrow> nat \<Rightarrow> nat \<Rightarrow> nat \<Rightarrow> nat \<Rightarrow> bool" where
  "conv_declared l in_channels out_channels ksize p =
     (shape (conv_W l) = [out_channels, in_channels, ksize, ksize] \<and> valid (conv_W l)
      \<and> shape (conv_b l) = [out_channels] \<and> valid (conv_b l) \<and> conv_pad l = p)"

definition linear_declared :: "Linear \<Rightarrow> nat \<Rightarrow> nat \<Rightarrow> bool" where
  "linear_declared l in_size out_size =
     (shape (lin_W l) = [out_size, in_size] \<and> valid (lin_W l)
      \<and> shape (lin_b l) = [out_size] \<and> valid (lin_b l))"

definition LeNet5_declared :: "LeNet5 \<Rightarrow> bool" where
  "LeNet5_declared self =
     (conv_declared (conv1 self) 1 6 5 2 \<and> conv_declared (conv2 self) 6 16 5 0
      \<and> linear_declared (fc1 self) 400 120 \<and> linear_declared (fc2 self) 120 84
      \<and> linear_declared (fc3 self) 84 10)"

text \<open>
  A method of the object runs against the object's state and may raise: it maps the state
  to a result (an error or a value) and the state after the call.
\<close>

type_synonym 'a py_method = "LeNet5 \<Rightarrow> (error + 'a) \<times> LeNet5"

text \<open>\<^verbatim>\<open>self.attr(x)\<close>: the link is read from the object and applied to \<open>x\<close>.\<close>

definition call_link ::
  "(LeNet5 \<Rightarrow> 'l) \<Rightarrow> ('l \<Rightarrow> ndarray \<Rightarrow> error + ndarray) \<Rightarrow> ndarray \<Rightarrow> ndarray py_method" where
  "call_link attr f x self = (f (attr self) x, self)"

text \<open>\<^verbatim>\<open>F.f(x)\<close>: a function of the library, which has no parameters of its own.\<close>

definition call_function :: "(ndarray \<Rightarrow> error + ndarray) \<Rightarrow> ndarray \<Rightarrow> ndarray py_method" where
  "call_function f x self = (f x, self)"

text \<open>One statement after another: an exception ends the method.\<close>

definition and_then :: "'a py_method \<Rightarrow> ('a \<Rightarrow> 'b py_method) \<Rightarrow> 'b py_method" where
  "and_then m k self =
     (case m self of (Inl e, self') \<Rightarrow> (Inl e, self') | (Inr v, self') \<Rightarrow> k v self')"

text \<open>
  \<^verbatim>\<open>LeNet5.__call__\<close>:
  \<^verbatim>\<open>
    h = F.tanh(self.conv1(x))
    h = F.max_pooling_2d(h, 2)
    h = F.tanh(self.conv2(h))
    h = F.max_pooling_2d(h, 2)
    h = F.tanh(self.fc1(h))
    h = F.tanh(self.fc2(h))
    return self.fc3(h)
  \<close>
\<close>

definition LeNet5_call :: "ndarray \<Rightarrow> ndarray py_method" where
  "LeNet5_call x =
     and_then (call_link conv1 Convolution2D_call x) (\<lambda>h.
     and_then (call_function F_tanh h) (\<lambda>h.
     and_then (call_function (F_max_pooling_2d 2) h) (\<lambda>h.
     and_then (call_link conv2 Convolution2D_call h) (\<lambda>h.
     and_then (call_function F_tanh h) (\<lambda>h.
     and_then (call_function (F_max_pooling_2d 2) h) (\<lambda>h.
     and_then (call_link fc1 Linear_call h) (\<lambda>h.
     and_then (call_function F_tanh h) (\<lambda>h.
     and_then (call_link fc2 Linear_call h) (\<lambda>h.
     and_then (call_function F_tanh h) (\<lambda>h.
     call_link fc3 Linear_call h))))))))))"

subsection \<open>The specification's pipeline\<close>

text \<open>
  The pipeline as the specification words it, on the model's parameters: "pad input to
  32\<times>32 \<rightarrow> conv(1\<rightarrow>6, kernel 5) \<rightarrow> tanh \<rightarrow> max-pool(2) \<rightarrow> conv(6\<rightarrow>16, kernel 5) \<rightarrow> tanh \<rightarrow>
  max-pool(2) \<rightarrow> flatten \<rightarrow> linear(400\<rightarrow>120) \<rightarrow> tanh \<rightarrow> linear(120\<rightarrow>84) \<rightarrow> tanh \<rightarrow>
  linear(84\<rightarrow>10)". Its convolutions have no padding of their own, its linear layers take a
  matrix, and each layer states its sizes.
\<close>

definition next_layer :: "error + 'a \<Rightarrow> ('a \<Rightarrow> error + 'b) \<Rightarrow> error + 'b" where
  "next_layer r f = (case r of Inl e \<Rightarrow> Inl e | Inr v \<Rightarrow> f v)"

definition spec_conv :: "nat \<Rightarrow> nat \<Rightarrow> nat \<Rightarrow> Convolution2D \<Rightarrow> ndarray \<Rightarrow> error + ndarray" where
  "spec_conv in_channels out_channels k l x =
     (if shape (conv_W l) = [out_channels, in_channels, k, k]
      then Convolution2D_call (l\<lparr>conv_pad := 0\<rparr>) x
      else Inl InvalidType)"

definition spec_linear :: "nat \<Rightarrow> nat \<Rightarrow> Linear \<Rightarrow> ndarray \<Rightarrow> error + ndarray" where
  "spec_linear n_in n_out l x =
     (if ndim x = 2 \<and> shape (lin_W l) = [n_out, n_in] then Linear_call l x
      else Inl InvalidType)"

definition spec_pipeline :: "LeNet5 \<Rightarrow> ndarray \<Rightarrow> error + ndarray" where
  "spec_pipeline self x =
     next_layer (next_layer (next_layer (next_layer (next_layer (next_layer (next_layer
     (next_layer (next_layer (next_layer (next_layer (next_layer
       (pad_to 32 x)
       (spec_conv 1 6 5 (conv1 self)))
       F_tanh)
       (F_max_pooling_2d 2))
       (spec_conv 6 16 5 (conv2 self)))
       F_tanh)
       (F_max_pooling_2d 2))
       flatten)
       (spec_linear 400 120 (fc1 self)))
       F_tanh)
       (spec_linear 120 84 (fc2 self)))
       F_tanh)
       (spec_linear 84 10 (fc3 self))"

subsection \<open>The forward pass as a sequence of layers\<close>

text \<open>
  The eleven layer applications of \<^verbatim>\<open>__call__\<close>, in the order of the source, and the
  evaluation of a sequence of layers, which stops at the first one that raises.
\<close>

definition LeNet5_layers :: "LeNet5 \<Rightarrow> (ndarray \<Rightarrow> error + ndarray) list" where
  "LeNet5_layers self =
     [Convolution2D_call (conv1 self), F_tanh, F_max_pooling_2d 2,
      Convolution2D_call (conv2 self), F_tanh, F_max_pooling_2d 2,
      Linear_call (fc1 self), F_tanh,
      Linear_call (fc2 self), F_tanh,
      Linear_call (fc3 self)]"

fun apply_layers :: "(ndarray \<Rightarrow> error + ndarray) list \<Rightarrow> ndarray \<Rightarrow> error + ndarray" where
  "apply_layers [] x = Inr x"
| "apply_layers (f # fs) x = (case f x of Inl e \<Rightarrow> Inl e | Inr h \<Rightarrow> apply_layers fs h)"

text \<open>Every element of the array lies in the closed interval from -1 to 1.\<close>

definition within_unit :: "ndarray \<Rightarrow> bool" where
  "within_unit a = list_all (\<lambda>v. - 1 \<le> v \<and> v \<le> 1) (data a)"

subsection \<open>The data iterators\<close>

text \<open>
  Modelled from the spec: \<^verbatim>\<open>chainer.iterators.SerialIterator\<close> is library code, absent
  from the repository. "Batch: ordered collection of samples grouped for one gradient step".
  The iterator holds the dataset, the batch size, whether it starts over at the end of the
  dataset, the order in which it visits the samples (\<open>None\<close> for the dataset's own order, a
  random permutation of the indices with shuffling) and its position and epoch counters.
\<close>

record 'a SerialIterator =
  it_dataset :: "'a list"
  it_batch_size :: nat
  it_repeat :: bool
  it_order :: "nat list option"
  current_position :: nat
  it_epoch :: nat
  is_new_epoch :: bool

datatype stop = StopIteration

text \<open>Python's \<^verbatim>\<open>xs[i:j]\<close> for \<open>0 \<le> i\<close> and \<open>0 \<le> j\<close>: it stops at the end of the list.\<close>

definition py_slice :: "'a list \<Rightarrow> nat \<Rightarrow> nat \<Rightarrow> 'a list" where
  "py_slice xs i j = take (j - i) (drop i xs)"

text \<open>
  The constructor; \<open>permutation\<close> is what \<^verbatim>\<open>numpy.random.permutation(len(dataset))\<close>
  draws when shuffling is on.
\<close>

definition SerialIterator_init ::
  "'a list \<Rightarrow> nat \<Rightarrow> bool \<Rightarrow> bool \<Rightarrow> nat list \<Rightarrow> 'a SerialIterator" where
  "SerialIterator_init dataset batch_size repeat shuffle permutation =
     \<lparr>it_dataset = dataset, it_batch_size = batch_size, it_repeat = repeat,
      it_order = (if shuffle then Some permutation else None),
      current_position = 0, it_epoch = 0, is_new_epoch = False\<rparr>"

text \<open>
  \<^verbatim>\<open>__next__\<close>: the next batch and the iterator after the call, or \<open>StopIteration\<close> once
  a non-repeating iterator has finished its epoch. At the end of the dataset a repeating
  iterator reshuffles its order (\<open>reshuffled\<close> is the permutation drawn then) and fills the
  batch from the start of the new epoch.
\<close>

definition SerialIterator_next ::
  "'a SerialIterator \<Rightarrow> nat list \<Rightarrow> stop + ('a list \<times> 'a SerialIterator)" where
  "SerialIterator_next it reshuffled =
     (if \<not> it_repeat it \<and> 0 < it_epoch it then Inl StopIteration
      else
        (let i = current_position it; i_end = i + it_batch_size it; N = length (it_dataset it);
             batch = (case it_order it of
                        None \<Rightarrow> py_slice (it_dataset it) i i_end
                      | Some order \<Rightarrow> map (\<lambda>index. it_dataset it ! index) (py_slice order i i_end))
         in if N \<le> i_end
            then
              (if it_repeat it
               then
                 (let rest = i_end - N;
                      order' = (case it_order it of None \<Rightarrow> None | Some order \<Rightarrow> Some reshuffled);
                      batch' = (if 0 < rest
                                then batch @ (case order' of
                                                None \<Rightarrow> py_slice (it_dataset it) 0 rest
                                              | Some order \<Rightarrow>
                                                  map (\<lambda>index. it_dataset it ! index)
                                                    (py_slice order 0 rest))
                                else batch)
                  in Inr (batch', it\<lparr>it_order := order', current_position := rest,
                                     it_epoch := it_epoch it + 1, is_new_epoch := True\<rparr>))
               else Inr (batch, it\<lparr>current_position := N, it_epoch := it_epoch it + 1,
                                   is_new_epoch := True\<rparr>))
            else Inr (batch, it\<lparr>is_new_epoch := False, current_position := i_end\<rparr>)))"

text \<open>
  The notebook's iterators:
  \<^verbatim>\<open>
    batchsize = 128
    train_iter = chainer.iterators.SerialIterator(train, batchsize)
    test_iter = chainer.iterators.SerialIterator(test, batchsize, repeat=False, shuffle=False)
  \<close>
  The training iterator takes the library's defaults, \<^verbatim>\<open>repeat=True\<close> and
  \<^verbatim>\<open>shuffle=True\<close>. The datasets \<^verbatim>\<open>train\<close> and \<^verbatim>\<open>test\<close> are the
  parameters \<open>train_set\<close> and \<open>test_set\<close>.
\<close>

definition batchsize :: nat where
  "batchsize = 128"

definition train_iter :: "'a list \<Rightarrow> nat list \<Rightarrow> 'a SerialIterator" where
  "train_iter train_set permutation =
     SerialIterator_init train_set batchsize True True permutation"

definition test_iter :: "'a list \<Rightarrow> 'a SerialIterator" where
  "test_iter test_set = SerialIterator_init test_set batchsize False False []"

text \<open>
  The updater asks the training iterator for one batch per gradient step: the batches of
  as many steps as there are entries in \<open>ps\<close>, the \<open>k\<close>-th entry being the permutation the
  iterator would draw if it reshuffled in the \<open>k\<close>-th call.
\<close>

fun next_batches :: "'a SerialIterator \<Rightarrow> nat list list \<Rightarrow> 'a list list" where
  "next_batches it [] = []"
| "next_batches it (p # ps) =
     (case SerialIterator_next it p of
        Inl StopIteration \<Rightarrow> []
      | Inr (batch, it') \<Rightarrow> batch # next_batches it' ps)"

text \<open>
  The evaluator's loop \<^verbatim>\<open>for batch in it\<close>: all batches up to \<open>StopIteration\<close>. The loop
  need not end (a repeating iterator never stops), so it runs on fuel: \<open>None\<close> is a loop
  still running when the fuel is spent.
\<close>

fun all_batches :: "nat \<Rightarrow> 'a SerialIterator \<Rightarrow> 'a list list option" where
  "all_batches 0 it = None"
| "all_batches (Suc fuel) it =
     (case SerialIterator_next it [] of
        Inl StopIteration \<Rightarrow> Some []
      | Inr (batch, it') \<Rightarrow> map_option (\<lambda>bs. batch # bs) (all_batches fuel it'))"

text \<open>A permutation of the indices \<open>0, \<dots>, N - 1\<close>.\<close>

definition is_permutation :: "nat \<Rightarrow> nat list \<Rightarrow> bool" where
  "is_permutation N p = (sort p = [0..<N])"

subsection \<open>The trainer and its extensions\<close>

text \<open>
  Modelled from the spec: \<^verbatim>\<open>chainer.training.Trainer\<close>, its triggers and its
  extensions are library code, absent from the repository. "run registered extensions
  (evaluate on test split, log metrics, plot curves, snapshot state) at epoch boundaries".
  After every update the trainer asks each registered extension's trigger whether the
  extension runs now. The trigger sees the updater's counters: the iterations done, the
  epochs finished, and whether the last update finished an epoch.
\<close>

record updater_state =
  updater_iteration :: nat
  updater_epoch :: nat
  updater_is_new_epoch :: bool

datatype interval_unit = Epoch | Iteration

text \<open>
  A trigger given as \<^verbatim>\<open>(period, unit)\<close> is an interval trigger: with unit
  \<^verbatim>\<open>'epoch'\<close> it fires when an epoch has just ended and the number of finished epochs is
  a multiple of the period; with unit \<^verbatim>\<open>'iteration'\<close> when the number of iterations is
  a multiple of the period.
  \<^verbatim>\<open>dump_graph\<close> brings a trigger of its own, which fires in the first iteration only.
\<close>

datatype trigger = IntervalTrigger nat interval_unit | FirstIteration

fun trigger_call :: "trigger \<Rightarrow> updater_state \<Rightarrow> bool" where
  "trigger_call (IntervalTrigger period Epoch) u =
     (updater_is_new_epoch u \<and> updater_epoch u mod period = 0)"
| "trigger_call (IntervalTrigger period Iteration) u = (updater_iteration u mod period = 0)"
| "trigger_call FirstIteration u = (updater_iteration u = 1)"

datatype extension = Evaluator | dump_graph | snapshot | LogReport | PlotReport string | PrintReport

text \<open>
  The trigger on which an extension does its work when \<^verbatim>\<open>trainer.extend\<close> is given
  none: the evaluator and the snapshot run once per epoch; the log report and the plot
  report collect at every iteration and write once per epoch; the print report prints what
  the log report has newly written.
\<close>

fun default_trigger :: "extension \<Rightarrow> trigger" where
  "default_trigger Evaluator = IntervalTrigger 1 Epoch"
| "default_trigger dump_graph = FirstIteration"
| "default_trigger snapshot = IntervalTrigger 1 Epoch"
| "default_trigger LogReport = IntervalTrigger 1 Epoch"
| "default_trigger (PlotReport file_name) = IntervalTrigger 1 Epoch"
| "default_trigger PrintReport = IntervalTrigger 1 Iteration"

text \<open>
  The notebook's trainer:
  \<^verbatim>\<open>
    epoch = 10
    trainer = training.Trainer(updater, (epoch, 'epoch'))
    trainer.extend(E.Evaluator(test_iter, model, device=gpu))
    trainer.extend(E.dump_graph('main/loss'))
    # Take a snapshot at each epoch
    trainer.extend(E.snapshot(), trigger=(epoch, 'epoch'))
    trainer.extend(E.LogReport())
    trainer.extend(E.PlotReport([...], 'epoch', file_name='loss.png'))
    trainer.extend(E.PlotReport([...], 'epoch', file_name='accuracy.png'))
    trainer.extend(E.PrintReport([...]))
  \<close>
  Each call of \<^verbatim>\<open>extend\<close> is an entry: the extension and the trigger argument, if any.
\<close>

definition epoch :: nat where
  "epoch = 10"

definition stop_trigger :: trigger where
  "stop_trigger = IntervalTrigger epoch Epoch"

definition extensions :: "(extension \<times> trigger option) list" where
  "extensions =
     [(Evaluator, None),
      (dump_graph, None),
      (snapshot, Some (IntervalTrigger epoch Epoch)),
      (LogReport, None),
      (PlotReport ''loss.png'', None),
      (PlotReport ''accuracy.png'', None),
      (PrintReport, None)]"

text \<open>The extensions the trainer runs when the updater's counters are \<open>u\<close>, in order.\<close>

definition entry_trigger :: "extension \<times> trigger option \<Rightarrow> trigger" where
  "entry_trigger entry = (case snd entry of None \<Rightarrow> default_trigger (fst entry) | Some t \<Rightarrow> t)"

definition dispatched :: "updater_state \<Rightarrow> extension list" where
  "dispatched u = map fst (filter (\<lambda>entry. trigger_call (entry_trigger entry) u) extensions)"

text \<open>
  The updater's counters at the end of the \<open>e\<close>-th epoch, reached in iteration \<open>i\<close>; the
  interval triggers on epochs do not look at \<open>i\<close>.
\<close>

definition epoch_boundary :: "nat \<Rightarrow> nat \<Rightarrow> updater_state" where
  "epoch_boundary e i =
     \<lparr>updater_iteration = i, updater_epoch = e, updater_is_new_epoch = True\<rparr>"

subsection \<open>A concrete model and concrete batches\<close>

text \<open>
  A freshly constructed model whose initialiser draws zeros, and four batches of blank
  images: two images of \<open>28 \<times> 28\<close>; one image with three channels, which the first
  convolution refuses; no image at all; and one image of \<open>27 \<times> 27\<close>.
\<close>

definition zero_model :: LeNet5 where
  "zero_model = LeNet5_init (\<lambda>i. 0) (\<lambda>i. 0) (\<lambda>i. 0) (\<lambda>i. 0) (\<lambda>i. 0)"

definition blank_batch :: ndarray where
  "blank_batch = \<lparr>shape = [2, 1, 28, 28], data = replicate 1568 0\<rparr>"

definition rgb_batch :: ndarray where
  "rgb_batch = \<lparr>shape = [1, 3, 28, 28], data = replicate 2352 0\<rparr>"

definition empty_batch :: ndarray where
  "empty_batch = \<lparr>shape = [0, 1, 28, 28], data = []\<rparr>"


text \<open>The shape of the array a call returned, or the error it raised.\<close>

definition result_shape :: "error + ndarray \<Rightarrow> error + nat list" where
  "result_shape r = (case r of Inl e \<Rightarrow> Inl e | Inr y \<Rightarrow> Inr (shape y))"

section \<open>Properties\<close>

subsection \<open>Buffers and indices\<close>

lemma length_concat_upt:
  "(\<And>i. i < n \<Longrightarrow> length (g i) = m) \<Longrightarrow> length (concat (map g [0..<n])) = n * m"
  by (induction n) simp_all

lemma nth_concat_upt:
  assumes "\<And>i. i < n \<Longrightarrow> length (g i) = m" and "i < n" and "r < m"
  shows "concat (map g [0..<n]) ! (i * m + r) = g i ! r"
  using assms
proof (induction n)
  case 0
  then show ?case by simp
next
  case (Suc n)
  have len: "length (concat (map g [0..<n])) = n * m"
    using Suc.prems(1) by (simp add: length_concat_upt)
  show ?case
  proof (cases "i < n")
    case True
    then have "Suc i \<le> n" by simp
    then have "Suc i * m \<le> n * m" by (rule mult_le_mono1)
    with \<open>r < m\<close> have "i * m + r < n * m" by simp
    with True Suc len show ?thesis by (simp add: nth_append)
  next
    case False
    with Suc.prems have "i = n" by simp
    with len show ?thesis by (simp add: nth_append)
  qed
qed

lemma length_tabulate4: "length (tabulate4 N C H W f) = N * C * H * W"
  by (simp add: tabulate4_def length_concat_upt)

lemma nth_tabulate4:
  assumes "n < N" "c < C" "y < H" "x < W"
  shows "tabulate4 N C H W f ! (((n * C + c) * H + y) * W + x) = f n c y x"
proof -
  let ?row = "\<lambda>n c y. map (\<lambda>x. f n c y x) [0..<W]"
  let ?chan = "\<lambda>n c. concat (map (?row n c) [0..<H])"
  let ?img = "\<lambda>n. concat (map (?chan n) [0..<C])"
  have lc: "\<And>n c. length (?chan n c) = H * W" by (simp add: length_concat_upt)
  have li: "\<And>n. length (?img n) = C * (H * W)" by (simp add: length_concat_upt)
  have "y * W + x < H * W"
  proof -
    from \<open>y < H\<close> have "Suc y * W \<le> H * W" by (intro mult_le_mono1) simp
    with \<open>x < W\<close> show ?thesis by simp
  qed
  then have 1: "c * (H * W) + (y * W + x) < C * (H * W)"
  proof -
    assume a: "y * W + x < H * W"
    from \<open>c < C\<close> have "Suc c * (H * W) \<le> C * (H * W)" by (intro mult_le_mono1) simp
    with a show ?thesis by simp
  qed
  have idx: "((n * C + c) * H + y) * W + x = n * (C * (H * W)) + (c * (H * W) + (y * W + x))"
    by (simp add: algebra_simps)
  have "tabulate4 N C H W f ! (((n * C + c) * H + y) * W + x)
      = ?img n ! (c * (H * W) + (y * W + x))"
    unfolding tabulate4_def idx using li 1 \<open>n < N\<close> by (intro nth_concat_upt) auto
  also have "\<dots> = ?chan n c ! (y * W + x)"
    using lc \<open>c < C\<close> \<open>y * W + x < H * W\<close> by (intro nth_concat_upt) auto
  also have "\<dots> = ?row n c y ! x"
    using \<open>y < H\<close> \<open>x < W\<close> by (intro nth_concat_upt) auto
  also have "\<dots> = f n c y x" using \<open>x < W\<close> by simp
  finally show ?thesis .
qed

lemma tabulate4_cong:
  "(\<And>n c y x. n < N \<Longrightarrow> c < C \<Longrightarrow> y < H \<Longrightarrow> x < W \<Longrightarrow> f n c y x = g n c y x)
   \<Longrightarrow> tabulate4 N C H W f = tabulate4 N C H W g"
  unfolding tabulate4_def
  by (intro arg_cong[where f=concat] map_cong refl) simp

lemma in_set_tabulate4:
  "v \<in> set (tabulate4 N C H W f) \<Longrightarrow> \<exists>n c y x. n < N \<and> c < C \<and> y < H \<and> x < W \<and> v = f n c y x"
  by (fastforce simp: tabulate4_def)

lemma valid_tabulate4: "valid \<lparr>shape = [N, C, H, W], data = tabulate4 N C H W f\<rparr>"
  by (simp add: valid_def length_tabulate4)

subsection \<open>Shapes of the layers' outputs\<close>

lemma length_tabulate2: "length (tabulate2 N M f) = N * M"
  by (simp add: tabulate2_def length_concat_upt)

lemma valid_tabulate2: "valid \<lparr>shape = [N, M], data = tabulate2 N M f\<rparr>"
  by (simp add: valid_def length_tabulate2)

lemma conv_call_shape:
  assumes "conv_declared l cin cout k p" and "shape x = [N, cin, H, W]"
    and "k \<le> H + 2 * p" and "k \<le> W + 2 * p"
  shows "\<exists>y. Convolution2D_call l x = Inr y
           \<and> shape y = [N, cout, H + 2 * p - k + 1, W + 2 * p - k + 1] \<and> valid y"
  using assms
  by (simp add: conv_declared_def Convolution2D_call_def ndim_def valid_tabulate4 Let_def)

lemma tanh_shape:
  "\<exists>y. F_tanh x = Inr y \<and> shape y = shape x \<and> (valid x \<longrightarrow> valid y) \<and> data y = map tanh (data x)"
  by (simp add: F_tanh_def valid_def)

lemma pool_shape:
  assumes "shape x = [N, C, H, W]" and "0 < k"
  shows "\<exists>y. F_max_pooling_2d k x = Inr y
           \<and> shape y = [N, C, nat ((int H - 1) div int k + 1), nat ((int W - 1) div int k + 1)]
           \<and> valid y"
  using assms
  by (simp add: F_max_pooling_2d_def ndim_def valid_tabulate4 get_conv_outsize_def Let_def)

lemma linear_shape:
  assumes "linear_declared l n_in n_out" and "shape x = N # rest" and "rest \<noteq> []"
    and "prod_list rest = n_in" and "length rest = 1 \<or> 0 < N"
  shows "\<exists>y. Linear_call l x = Inr y \<and> shape y = [N, n_out] \<and> valid y"
  using assms
  by (cases rest)
     (auto simp: linear_declared_def Linear_call_def ndim_def valid_tabulate2 Let_def)

lemma linear_empty:
  assumes "linear_declared l n_in n_out" and "shape x = 0 # rest" and "2 \<le> length rest"
    and "prod_list rest = n_in"
  shows "Linear_call l x = Inl ValueError"
  using assms
  by (cases rest) (auto simp: linear_declared_def Linear_call_def ndim_def Let_def)

subsection \<open>Padding inside the convolution and padding before it\<close>

lemma at4_zero_pad:
  assumes "ndim x = 4" "n < shape x ! 0" "c < shape x ! 1"
    and "y < shape x ! 2 + 2 * ph" "j < shape x ! 3 + 2 * pw"
  shows "padded_at (zero_pad ph pw x) 0 0 n c y j = padded_at x ph pw n c y j"
proof -
  have "padded_at (zero_pad ph pw x) 0 0 n c y j = at4 (zero_pad ph pw x) n c y j"
    using assms by (simp add: padded_at_def zero_pad_def Let_def)
  also have "\<dots> = padded_at x ph pw n c y j"
    using assms by (simp add: at4_def zero_pad_def Let_def nth_tabulate4)
  finally show ?thesis .
qed

lemma conv_pad_fused:
  assumes "ndim x = 4"
  shows "Convolution2D_call l x
       = Convolution2D_call (l\<lparr>conv_pad := 0\<rparr>) (zero_pad (conv_pad l) (conv_pad l) x)"
proof -
  let ?p = "conv_pad l"
  let ?z = "zero_pad ?p ?p x"
  have sz: "shape ?z = [shape x ! 0, shape x ! 1, shape x ! 2 + 2 * ?p, shape x ! 3 + 2 * ?p]"
    by (simp add: zero_pad_def Let_def)
  have cells: "sum_list (concat (map (\<lambda>c. concat (map (\<lambda>u. map (\<lambda>v.
                  at4 (conv_W l) oc c u v * padded_at x ?p ?p n c (i + u) (j + v))
                  [0..<kw]) [0..<kh])) [0..<shape x ! 1]))
             = sum_list (concat (map (\<lambda>c. concat (map (\<lambda>u. map (\<lambda>v.
                  at4 (conv_W l) oc c u v * padded_at ?z 0 0 n c (i + u) (j + v))
                  [0..<kw]) [0..<kh])) [0..<shape x ! 1]))"
    if "n < shape x ! 0" "i < shape x ! 2 + 2 * ?p - kh + 1" "j < shape x ! 3 + 2 * ?p - kw + 1"
       "kh \<le> shape x ! 2 + 2 * ?p" "kw \<le> shape x ! 3 + 2 * ?p"
    for n oc i j kh kw
  proof (intro arg_cong[where f=sum_list] arg_cong[where f=concat] map_cong refl)
    fix c u v
    assume "c \<in> set [0..<shape x ! 1]" "u \<in> set [0..<kh]" "v \<in> set [0..<kw]"
    with that have "c < shape x ! 1" "i + u < shape x ! 2 + 2 * ?p" "j + v < shape x ! 3 + 2 * ?p"
      by auto
    with assms that(1) show "at4 (conv_W l) oc c u v * padded_at x ?p ?p n c (i + u) (j + v)
        = at4 (conv_W l) oc c u v * padded_at ?z 0 0 n c (i + u) (j + v)"
      by (simp add: at4_zero_pad)
  qed
  show ?thesis
  proof (cases "ndim (conv_W l) = 4 \<and> shape x ! 1 = shape (conv_W l) ! 1
      \<and> shape (conv_b l) = [shape (conv_W l) ! 0]
      \<and> shape (conv_W l) ! 2 \<le> shape x ! 2 + 2 * ?p \<and> shape (conv_W l) ! 3 \<le> shape x ! 3 + 2 * ?p")
    case True
    then have "tabulate4 (shape x ! 0) (shape (conv_W l) ! 0)
           (shape x ! 2 + 2 * ?p - shape (conv_W l) ! 2 + 1)
           (shape x ! 3 + 2 * ?p - shape (conv_W l) ! 3 + 1)
           (\<lambda>n oc i j. sum_list (concat (map (\<lambda>c. concat (map (\<lambda>u. map (\<lambda>v.
                  at4 (conv_W l) oc c u v * padded_at x ?p ?p n c (i + u) (j + v))
                  [0..<shape (conv_W l) ! 3]) [0..<shape (conv_W l) ! 2])) [0..<shape x ! 1]))
                 + data (conv_b l) ! oc)
        = tabulate4 (shape x ! 0) (shape (conv_W l) ! 0)
           (shape x ! 2 + 2 * ?p - shape (conv_W l) ! 2 + 1)
           (shape x ! 3 + 2 * ?p - shape (conv_W l) ! 3 + 1)
           (\<lambda>n oc i j. sum_list (concat (map (\<lambda>c. concat (map (\<lambda>u. map (\<lambda>v.
                  at4 (conv_W l) oc c u v * padded_at ?z 0 0 n c (i + u) (j + v))
                  [0..<shape (conv_W l) ! 3]) [0..<shape (conv_W l) ! 2])) [0..<shape x ! 1]))
                 + data (conv_b l) ! oc)"
      by (intro tabulate4_cong arg_cong2[where f="(+)"] cells refl) auto
    with True assms show ?thesis
      by (simp add: Convolution2D_call_def Let_def ndim_def sz)
  next
    case False
    with assms show ?thesis
      by (auto simp: Convolution2D_call_def Let_def ndim_def sz)
  qed
qed

lemma flatten_shape:
  assumes "1 \<le> ndim x"
  shows "\<exists>x'. flatten x = Inr x' \<and> shape x' = [shape x ! 0, prod_list (tl (shape x))]
           \<and> data x' = data x"
  using assms by (simp add: flatten_def)

lemma linear_flatten:
  assumes "2 \<le> ndim x" and "0 < shape x ! 0"
  shows "\<exists>x'. flatten x = Inr x' \<and> ndim x' = 2 \<and> shape x' = [shape x ! 0, prod_list (tl (shape x))]
           \<and> data x' = data x \<and> Linear_call l x' = Linear_call l x"
  using assms by (simp add: flatten_def Linear_call_def ndim_def at2_def Let_def)

subsection \<open>Max-pooling returns elements of its input\<close>

lemma flat_index_less: "a < A \<Longrightarrow> b < B \<Longrightarrow> a * B + b < A * (B::nat)"
proof -
  assume "a < A" "b < B"
  then have "Suc a * B \<le> A * B" by (intro mult_le_mono1) simp
  with \<open>b < B\<close> show ?thesis by simp
qed

lemma at4_in_data:
  assumes "valid x" "shape x = [N, C, H, W]" "n < N" "c < C" "u < H" "v < W"
  shows "at4 x n c u v \<in> set (data x)"
proof -
  have "((n * C + c) * H + u) * W + v < ((N * C) * H) * W"
    using assms by (intro flat_index_less) auto
  with assms show ?thesis
    by (simp add: at4_def valid_def mult.assoc)
qed

lemma pool_outsize_covers:
  assumes "0 < k" and "i < nat (get_conv_outsize (int H) (int k) (int k) 0 True)"
  shows "i * k < H"
proof -
  from assms have lt: "int i < (int H - 1) div int k + 1"
    by (simp add: get_conv_outsize_def)
  have "H \<noteq> 0"
  proof
    assume "H = 0"
    with \<open>0 < k\<close> have "(int H - 1) div int k = -1"
      by (simp add: div_eq_minus1)
    with lt show False by simp
  qed
  from lt have "int i \<le> (int H - 1) div int k" by simp
  then have "int i * int k \<le> ((int H - 1) div int k) * int k"
    by (intro mult_right_mono) simp_all
  also have "\<dots> \<le> int H - 1"
  proof -
    have "(int H - 1) div int k * int k + (int H - 1) mod int k = int H - 1" by simp
    moreover have "0 \<le> (int H - 1) mod int k" using \<open>0 < k\<close> by simp
    ultimately show ?thesis by linarith
  qed
  finally have "int (i * k) < int H" by simp
  then show ?thesis by (simp only: of_nat_less_iff)
qed

lemma pool_elements:
  assumes "valid x" and "shape x = [N, C, H, W]" and "F_max_pooling_2d k x = Inr y"
  shows "set (data y) \<subseteq> set (data x)"
proof
  fix m assume m: "m \<in> set (data y)"
  from assms have k: "0 < k"
    by (auto simp: F_max_pooling_2d_def split: if_splits)
  let ?oh = "nat (get_conv_outsize (int H) (int k) (int k) 0 True)"
  let ?ow = "nat (get_conv_outsize (int W) (int k) (int k) 0 True)"
  let ?win = "\<lambda>n c i j. concat (map (\<lambda>u. map (\<lambda>v. at4 x n c u v)
                       [j * k..<min (j * k + k) W]) [i * k..<min (i * k + k) H])"
  from assms k have "data y = tabulate4 N C ?oh ?ow (\<lambda>n c i j. Max (set (?win n c i j)))"
    by (auto simp: F_max_pooling_2d_def ndim_def Let_def)
  with m have "m \<in> set (tabulate4 N C ?oh ?ow (\<lambda>n c i j. Max (set (?win n c i j))))"
    by simp
  from in_set_tabulate4[OF this] obtain n c i j where b: "n < N" "c < C" "i < ?oh" "j < ?ow"
    and mm: "m = Max (set (?win n c i j))"
    by blast
  from b k have ik: "i * k < H" and jk: "j * k < W"
    by (auto intro: pool_outsize_covers)
  have sub: "set (?win n c i j) \<subseteq> set (data x)"
    using assms(1,2) b by (auto intro!: at4_in_data)
  have "i * k \<in> {i * k..<min (i * k + k) H}" "j * k \<in> {j * k..<min (j * k + k) W}"
    using ik jk k by simp_all
  then have "at4 x n c (i * k) (j * k) \<in> set (?win n c i j)"
    by (simp del: atLeastLessThan_iff) blast
  then have "set (?win n c i j) \<noteq> {}" by (metis empty_iff)
  then have "Max (set (?win n c i j)) \<in> set (?win n c i j)"
    by (intro Max_in) simp_all
  with sub mm show "m \<in> set (data x)" by blast
qed

subsection \<open>The forward pass, layer by layer\<close>

lemma LeNet5_call_layers: "LeNet5_call x self = (apply_layers (LeNet5_layers self) x, self)"
  by (simp add: LeNet5_call_def LeNet5_layers_def and_then_def call_link_def call_function_def
      split: sum.splits)

lemma pooled_size:
  assumes "25 \<le> H" and "H \<le> 28"
  shows "5 \<le> nat ((int H - 1) div 2 + 1)"
    and "nat ((int (nat ((int H - 1) div 2 + 1) - 5 + 1) - 1) div 2 + 1) = 5"
  using assms by auto

lemma forward_front:
  assumes "LeNet5_declared self" and "shape x = [n, 1, H, W]"
    and "25 \<le> H" and "H \<le> 28" and "25 \<le> W" and "W \<le> 28"
  obtains h1 h2 h3 h4 h5 h6 where
    "Convolution2D_call (conv1 self) x = Inr h1" "shape h1 = [n, 6, H, W]" "valid h1"
    "F_tanh h1 = Inr h2" "shape h2 = [n, 6, H, W]" "valid h2" "data h2 = map tanh (data h1)"
    "F_max_pooling_2d 2 h2 = Inr h3" "valid h3"
    "Convolution2D_call (conv2 self) h3 = Inr h4" "valid h4"
    "F_tanh h4 = Inr h5" "valid h5" "data h5 = map tanh (data h4)"
    "F_max_pooling_2d 2 h5 = Inr h6" "shape h6 = [n, 16, 5, 5]" "valid h6"
proof -
  define A where "A = nat ((int H - 1) div int 2 + 1)"
  define B where "B = nat ((int W - 1) div int 2 + 1)"
  have A: "5 \<le> A + 2 * 0" "nat ((int (A + 2 * 0 - 5 + 1) - 1) div int 2 + 1) = 5"
    using pooled_size[OF assms(3,4)] by (simp_all add: A_def)
  have B: "5 \<le> B + 2 * 0" "nat ((int (B + 2 * 0 - 5 + 1) - 1) div int 2 + 1) = 5"
    using pooled_size[OF assms(5,6)] by (simp_all add: B_def)
  from assms(1) have d: "conv_declared (conv1 self) 1 6 5 2" "conv_declared (conv2 self) 6 16 5 0"
    by (simp_all add: LeNet5_declared_def)
  have "5 \<le> H + 2 * 2" "5 \<le> W + 2 * 2" using assms(3,5) by simp_all
  moreover have "H + 2 * 2 - 5 + 1 = H" "W + 2 * 2 - 5 + 1 = W" using assms(3,5) by simp_all
  ultimately obtain h1 where
    h1: "Convolution2D_call (conv1 self) x = Inr h1" "shape h1 = [n, 6, H, W]" "valid h1"
    using conv_call_shape[OF d(1) assms(2)] by metis
  from tanh_shape[of h1] h1 obtain h2 where
    h2: "F_tanh h1 = Inr h2" "shape h2 = [n, 6, H, W]" "valid h2" "data h2 = map tanh (data h1)"
    by auto
  have "(0::nat) < 2" by simp
  from pool_shape[OF h2(2) this] obtain h3 where
    h3: "F_max_pooling_2d 2 h2 = Inr h3" "shape h3 = [n, 6, A, B]" "valid h3"
    unfolding A_def B_def by blast
  from conv_call_shape[OF d(2) h3(2) A(1) B(1)] obtain h4 where
    h4: "Convolution2D_call (conv2 self) h3 = Inr h4"
      "shape h4 = [n, 16, A + 2 * 0 - 5 + 1, B + 2 * 0 - 5 + 1]" "valid h4"
    by blast
  from tanh_shape[of h4] h4(2,3) obtain h5 where
    h5: "F_tanh h4 = Inr h5" "shape h5 = [n, 16, A + 2 * 0 - 5 + 1, B + 2 * 0 - 5 + 1]"
      "valid h5" "data h5 = map tanh (data h4)"
    by auto
  from pool_shape[OF h5(2) \<open>(0::nat) < 2\<close>] obtain h6 where
    "F_max_pooling_2d 2 h5 = Inr h6"
    "shape h6 = [n, 16, nat ((int (A + 2 * 0 - 5 + 1) - 1) div int 2 + 1),
        nat ((int (B + 2 * 0 - 5 + 1) - 1) div int 2 + 1)]" "valid h6"
    by blast
  then have h6: "F_max_pooling_2d 2 h5 = Inr h6" "shape h6 = [n, 16, 5, 5]" "valid h6"
    by (simp_all only: A(2) B(2))
  from h1 h2 h3(1,3) h4(1,3) h5(1,3,4) h6 show ?thesis by (rule that)
qed

lemma forward_back:
  assumes "LeNet5_declared self" and "shape h6 = [n, 16, 5, 5]" and "0 < n"
  obtains h7 h8 h9 h10 h11 where
    "Linear_call (fc1 self) h6 = Inr h7" "shape h7 = [n, 120]" "valid h7"
    "F_tanh h7 = Inr h8" "shape h8 = [n, 120]" "valid h8" "data h8 = map tanh (data h7)"
    "Linear_call (fc2 self) h8 = Inr h9" "shape h9 = [n, 84]" "valid h9"
    "F_tanh h9 = Inr h10" "shape h10 = [n, 84]" "valid h10" "data h10 = map tanh (data h9)"
    "Linear_call (fc3 self) h10 = Inr h11" "shape h11 = [n, 10]" "valid h11"
proof -
  from assms(1) have d: "linear_declared (fc1 self) 400 120" "linear_declared (fc2 self) 120 84"
    "linear_declared (fc3 self) 84 10"
    by (simp_all add: LeNet5_declared_def)
  from linear_shape[OF d(1) assms(2)] assms(3) obtain h7 where
    h7: "Linear_call (fc1 self) h6 = Inr h7" "shape h7 = [n, 120]" "valid h7"
    by auto
  from tanh_shape[of h7] h7 obtain h8 where
    h8: "F_tanh h7 = Inr h8" "shape h8 = [n, 120]" "valid h8" "data h8 = map tanh (data h7)"
    by auto
  from linear_shape[OF d(2) h8(2)] obtain h9 where
    h9: "Linear_call (fc2 self) h8 = Inr h9" "shape h9 = [n, 84]" "valid h9"
    by auto
  from tanh_shape[of h9] h9 obtain h10 where
    h10: "F_tanh h9 = Inr h10" "shape h10 = [n, 84]" "valid h10" "data h10 = map tanh (data h9)"
    by auto
  from linear_shape[OF d(3) h10(2)] obtain h11 where
    h11: "Linear_call (fc3 self) h10 = Inr h11" "shape h11 = [n, 10]" "valid h11"
    by auto
  from h7 h8 h9 h10 h11 show ?thesis by (rule that)
qed

lemma forward_trace:
  assumes "LeNet5_declared self" and "shape x = [n, 1, H, W]" and "0 < n"
    and "25 \<le> H" and "H \<le> 28" and "25 \<le> W" and "W \<le> 28"
  obtains h1 h2 h3 h4 h5 h6 h7 h8 h9 h10 h11 where
    "Convolution2D_call (conv1 self) x = Inr h1" "F_tanh h1 = Inr h2"
    "F_max_pooling_2d 2 h2 = Inr h3" "Convolution2D_call (conv2 self) h3 = Inr h4"
    "F_tanh h4 = Inr h5" "F_max_pooling_2d 2 h5 = Inr h6" "shape h6 = [n, 16, 5, 5]"
    "Linear_call (fc1 self) h6 = Inr h7" "F_tanh h7 = Inr h8" "shape h8 = [n, 120]"
    "Linear_call (fc2 self) h8 = Inr h9" "F_tanh h9 = Inr h10" "shape h10 = [n, 84]"
    "Linear_call (fc3 self) h10 = Inr h11" "shape h11 = [n, 10]" "valid h11"
proof -
  obtain h1 h2 h3 h4 h5 h6 where
    a: "Convolution2D_call (conv1 self) x = Inr h1" "F_tanh h1 = Inr h2"
    "F_max_pooling_2d 2 h2 = Inr h3" "Convolution2D_call (conv2 self) h3 = Inr h4"
    "F_tanh h4 = Inr h5" "F_max_pooling_2d 2 h5 = Inr h6" "shape h6 = [n, 16, 5, 5]"
    using forward_front[OF assms(1,2,4-7), of thesis] by simp
  obtain h7 h8 h9 h10 h11 where
    b: "Linear_call (fc1 self) h6 = Inr h7" "F_tanh h7 = Inr h8" "shape h8 = [n, 120]"
    "Linear_call (fc2 self) h8 = Inr h9" "F_tanh h9 = Inr h10" "shape h10 = [n, 84]"
    "Linear_call (fc3 self) h10 = Inr h11" "shape h11 = [n, 10]" "valid h11"
    using forward_back[OF assms(1) a(7) assms(3), of thesis] by simp
  from a b show ?thesis by (rule that)
qed

lemma forward_trace_mnist:
  assumes "LeNet5_declared self" and "shape x = [n, 1, 28, 28]" and "0 < n"
  obtains h1 h2 h3 h4 h5 h6 h7 h8 h9 h10 h11 where
    "Convolution2D_call (conv1 self) x = Inr h1" "F_tanh h1 = Inr h2"
    "F_max_pooling_2d 2 h2 = Inr h3" "Convolution2D_call (conv2 self) h3 = Inr h4"
    "F_tanh h4 = Inr h5" "F_max_pooling_2d 2 h5 = Inr h6" "shape h6 = [n, 16, 5, 5]"
    "Linear_call (fc1 self) h6 = Inr h7" "F_tanh h7 = Inr h8" "shape h8 = [n, 120]"
    "Linear_call (fc2 self) h8 = Inr h9" "F_tanh h9 = Inr h10" "shape h10 = [n, 84]"
    "Linear_call (fc3 self) h10 = Inr h11" "shape h11 = [n, 10]" "valid h11"
proof -
  have b: "25 \<le> (28::nat)" "28 \<le> (28::nat)" by simp_all
  show ?thesis by (rule forward_trace[OF assms b b]) (rule that)
qed


text \<open>
  An empty batch passes both convolutions and is refused by the reshape in the first linear
  layer.
\<close>

lemma empty_batch_raises:
  assumes "LeNet5_declared self" and "shape x = [0, 1, 28, 28]"
  shows "fst (LeNet5_call x self) = Inl ValueError"
proof (rule forward_front[OF assms, of _])
  show "25 \<le> (28::nat)" "28 \<le> (28::nat)" "25 \<le> (28::nat)" "28 \<le> (28::nat)" by simp_all
next
  fix h1 h2 h3 h4 h5 h6
  assume a: "Convolution2D_call (conv1 self) x = Inr h1" "F_tanh h1 = Inr h2"
    "F_max_pooling_2d 2 h2 = Inr h3" "Convolution2D_call (conv2 self) h3 = Inr h4"
    "F_tanh h4 = Inr h5" "F_max_pooling_2d 2 h5 = Inr h6" "shape h6 = [0, 16, 5, 5]"
  from assms(1) have "linear_declared (fc1 self) 400 120"
    by (simp add: LeNet5_declared_def)
  from linear_empty[OF this a(7)] have "Linear_call (fc1 self) h6 = Inl ValueError"
    by simp
  with a show ?thesis
    by (simp add: LeNet5_call_layers LeNet5_layers_def)
qed




lemma within_unit_tanh: "data y = map tanh (data x) \<Longrightarrow> within_unit y"
  by (simp add: within_unit_def list.pred_map comp_def less_imp_le tanh_real_gt_neg1 tanh_real_lt_1 list_all_iff less_eq_real_def)

lemma within_unit_pool:
  assumes "within_unit x" "valid x" "shape x = [N, C, H, W]" "F_max_pooling_2d k x = Inr y"
  shows "within_unit y"
  using pool_elements[OF assms(2,3,4)] assms(1)
  by (auto simp: within_unit_def list_all_iff)

lemma shape_of_ndim4:
  assumes "ndim x = 4"
  shows "shape x = [shape x ! 0, shape x ! 1, shape x ! 2, shape x ! 3]"
proof -
  from assms have "length (shape x) = 4" by (simp add: ndim_def)
  then show ?thesis
    by (intro nth_equalityI) (auto simp: nth_Cons' less_Suc_eq numeral_eq_Suc)
qed

lemma conv_output_valid:
  "Convolution2D_call l x = Inr y \<Longrightarrow> valid y \<and> ndim y = 4"
  by (auto simp: Convolution2D_call_def Let_def valid_tabulate4 ndim_def split: if_splits)

lemma tanh_output:
  "F_tanh x = Inr y \<Longrightarrow> within_unit y \<and> (valid x \<longrightarrow> valid y) \<and> ndim y = ndim x"
  by (auto simp: F_tanh_def within_unit_tanh valid_def ndim_def)

lemma pool_output_within_unit:
  assumes "within_unit x" and "valid x" and "F_max_pooling_2d k x = Inr y"
  shows "within_unit y"
proof -
  from assms(3) have "ndim x = 4"
    by (auto simp: F_max_pooling_2d_def split: if_splits)
  from within_unit_pool[OF assms(1,2) shape_of_ndim4[OF this] assms(3)] show ?thesis .
qed

lemma conv_tanh_pool_within_unit:
  assumes "Convolution2D_call l x = Inr h1" and "F_tanh h1 = Inr h2"
    and "F_max_pooling_2d k h2 = Inr h3"
  shows "within_unit h2 \<and> within_unit h3"
proof -
  from conv_output_valid[OF assms(1)] tanh_output[OF assms(2)]
  have "within_unit h2" "valid h2" by simp_all
  with assms(3) show ?thesis by (simp add: pool_output_within_unit)
qed

lemma LeNet5_init_declared: "LeNet5_declared (LeNet5_init g1 g2 g3 g4 g5)"
  by (simp add: LeNet5_declared_def LeNet5_init_def conv_declared_def linear_declared_def
      Convolution2D_init_def Linear_init_def valid_def)


lemma next_layer_Inr: "next_layer (Inr v) f = f v"
  by (simp add: next_layer_def)

lemma zero_model_declared: "LeNet5_declared zero_model"
  by (simp add: zero_model_def LeNet5_init_declared)

lemma blank_batch_valid: "valid blank_batch"
  by (simp add: blank_batch_def valid_def)

lemma blank_batch_shape: "shape blank_batch = [2, 1, 28, 28]"
  by (simp add: blank_batch_def)

lemma rgb_batch_refused: "fst (LeNet5_call rgb_batch zero_model) = Inl InvalidType"
  by (simp add: LeNet5_call_layers LeNet5_layers_def rgb_batch_def zero_model_def
      LeNet5_init_def Convolution2D_init_def Convolution2D_call_def ndim_def)

lemma empty_batch_shape: "shape empty_batch = [0, 1, 28, 28]"
  by (simp add: empty_batch_def)

lemma empty_batch_valid: "valid empty_batch"
  by (simp add: empty_batch_def valid_def)



lemma result_shape_Inr: "r = Inr y \<Longrightarrow> result_shape r = Inr (shape y)"
  by (simp add: result_shape_def)

text \<open>
  The specification's pipeline returns logits for every batch size, zero included: its
  flatten step and its linear layers on matrices are defined on an empty batch.
\<close>

lemma spec_pipeline_returns:
  assumes "LeNet5_declared self" and "shape x = [n, 1, 28, 28]"
  shows "\<exists>y. spec_pipeline self x = Inr y \<and> shape y = [n, 10]"
proof (rule forward_front[OF assms, of _])
  show "25 \<le> (28::nat)" "28 \<le> (28::nat)" "25 \<le> (28::nat)" "28 \<le> (28::nat)" by simp_all
next
  fix h1 h2 h3 h4 h5 h6
  assume t: "Convolution2D_call (conv1 self) x = Inr h1" "F_tanh h1 = Inr h2"
    "F_max_pooling_2d 2 h2 = Inr h3" "Convolution2D_call (conv2 self) h3 = Inr h4"
    "F_tanh h4 = Inr h5" "F_max_pooling_2d 2 h5 = Inr h6"
    and s6: "shape h6 = [n, 16, 5, 5]"
  from assms(1) have d: "conv_pad (conv1 self) = 2" "conv_pad (conv2 self) = 0"
    "shape (conv_W (conv1 self)) = [6, 1, 5, 5]" "shape (conv_W (conv2 self)) = [16, 6, 5, 5]"
    "shape (lin_W (fc1 self)) = [120, 400]" "shape (lin_W (fc2 self)) = [84, 120]"
    "shape (lin_W (fc3 self)) = [10, 84]"
    and l: "linear_declared (fc1 self) 400 120" "linear_declared (fc2 self) 120 84"
    "linear_declared (fc3 self) 84 10"
    by (simp_all add: LeNet5_declared_def conv_declared_def linear_declared_def)
  have x4: "ndim x = 4" using assms(2) by (simp add: ndim_def)
  have p: "pad_to 32 x = Inr (zero_pad 2 2 x)"
    using assms(2) by (simp add: pad_to_def ndim_def)
  have c1: "spec_conv 1 6 5 (conv1 self) (zero_pad 2 2 x) = Inr h1"
    using conv_pad_fused[OF x4, of "conv1 self"] t(1) d by (simp add: spec_conv_def)
  have e: "(conv2 self)\<lparr>conv_pad := 0\<rparr> = conv2 self"
    using d(2) by (metis Convolution2D.surjective Convolution2D.update_convs(3))
  have c2: "spec_conv 6 16 5 (conv2 self) h3 = Inr h4"
    unfolding spec_conv_def e using t(4) d(4) by simp
  have "1 \<le> ndim h6" using s6 by (simp add: ndim_def)
  from flatten_shape[OF this] s6 obtain f6 where
    f: "flatten h6 = Inr f6" "shape f6 = [n, 400]"
    by auto
  from linear_shape[OF l(1) f(2)] obtain h7 where
    h7: "Linear_call (fc1 self) f6 = Inr h7" "shape h7 = [n, 120]"
    by auto
  from tanh_shape[of h7] h7 obtain h8 where
    h8: "F_tanh h7 = Inr h8" "shape h8 = [n, 120]"
    by auto
  from linear_shape[OF l(2) h8(2)] obtain h9 where
    h9: "Linear_call (fc2 self) h8 = Inr h9" "shape h9 = [n, 84]"
    by auto
  from tanh_shape[of h9] h9 obtain h10 where
    h10: "F_tanh h9 = Inr h10" "shape h10 = [n, 84]"
    by auto
  from linear_shape[OF l(3) h10(2)] obtain h11 where
    h11: "Linear_call (fc3 self) h10 = Inr h11" "shape h11 = [n, 10]"
    by auto
  have l1: "spec_linear 400 120 (fc1 self) f6 = Inr h7"
    using h7(1) f(2) d by (simp add: spec_linear_def ndim_def)
  have l2: "spec_linear 120 84 (fc2 self) h8 = Inr h9"
    using h9(1) h8(2) d by (simp add: spec_linear_def ndim_def)
  have l3: "spec_linear 84 10 (fc3 self) h10 = Inr h11"
    using h11(1) h10(2) d by (simp add: spec_linear_def ndim_def)
  have "spec_pipeline self x = Inr h11"
    by (simp only: spec_pipeline_def next_layer_Inr p c1 c2 f(1) l1 l2 l3 t h8(1) h10(1))
  with h11(2) show ?thesis by simp
qed

subsection \<open>The iterators\<close>

lemma is_permutation_length: "is_permutation N p \<Longrightarrow> length p = N"
proof -
  assume "is_permutation N p"
  then have "length (sort p) = length [0..<N]" by (simp add: is_permutation_def)
  then show ?thesis by simp
qed

lemma is_permutation_upt: "is_permutation N [0..<N]"
  by (simp add: is_permutation_def sorted_sort_id)

lemma next_train_step:
  assumes "it_repeat it" and "it_order it = Some ord" and "length ord = N"
    and "length (it_dataset it) = N" and "current_position it < N"
    and "it_batch_size it = B" and "B \<le> N" and "length p = N"
  shows "\<exists>batch it' ord'. SerialIterator_next it p = Inr (batch, it') \<and> length batch = B
           \<and> it_repeat it' \<and> it_order it' = Some ord' \<and> length ord' = N
           \<and> length (it_dataset it') = N \<and> current_position it' < N \<and> it_batch_size it' = B"
proof (cases "N \<le> current_position it + B")
  case True
  with assms show ?thesis
    by (auto simp: SerialIterator_next_def Let_def py_slice_def)
next
  case False
  with assms show ?thesis
    by (auto simp: SerialIterator_next_def Let_def py_slice_def)
qed

lemma next_batches_train:
  assumes "it_repeat it" and "it_order it = Some ord" and "length ord = N"
    and "length (it_dataset it) = N" and "current_position it < N"
    and "it_batch_size it = B" and "B \<le> N" and "list_all (\<lambda>p. length p = N) ps"
  shows "length (next_batches it ps) = length ps
       \<and> list_all (\<lambda>batch. length batch = B) (next_batches it ps)"
  using assms
proof (induction ps arbitrary: it ord)
  case Nil
  then show ?case by simp
next
  case (Cons p ps)
  from Cons.prems(8) have p: "length p = N" and ps: "list_all (\<lambda>p. length p = N) ps"
    by simp_all
  from next_train_step[OF Cons.prems(1-7) p] obtain batch it' ord' where
    s: "SerialIterator_next it p = Inr (batch, it')" "length batch = B"
      "it_repeat it'" "it_order it' = Some ord'" "length ord' = N"
      "length (it_dataset it') = N" "current_position it' < N" "it_batch_size it' = B"
    by blast
  from Cons.IH[OF s(3-8) Cons.prems(7) ps] s(1,2) show ?case by simp
qed

lemma all_batches_once:
  assumes "\<not> it_repeat it" and "it_order it = None" and "it_epoch it = 0"
    and "0 < it_batch_size it"
    and "length (it_dataset it) - current_position it + 2 \<le> fuel"
  shows "\<exists>bs. all_batches fuel it = Some bs
           \<and> concat bs = drop (current_position it) (it_dataset it)"
  using assms
proof (induction fuel arbitrary: it)
  case 0
  then show ?case by simp
next
  case (Suc fuel)
  let ?i = "current_position it" and ?B = "it_batch_size it" and ?N = "length (it_dataset it)"
  show ?case
  proof (cases "?N \<le> ?i + ?B")
    case True
    let ?it' = "it\<lparr>current_position := ?N, it_epoch := it_epoch it + 1, is_new_epoch := True\<rparr>"
    from True Suc.prems have n: "SerialIterator_next it []
        = Inr (drop ?i (it_dataset it), ?it')"
      by (simp add: SerialIterator_next_def Let_def py_slice_def)
    from Suc.prems obtain fuel' where f: "fuel = Suc fuel'" by (cases fuel) auto
    from Suc.prems have "SerialIterator_next ?it' [] = Inl StopIteration"
      by (simp add: SerialIterator_next_def)
    then have "all_batches fuel ?it' = Some []" by (simp add: f)
    with n show ?thesis by simp
  next
    case False
    let ?it' = "it\<lparr>is_new_epoch := False, current_position := ?i + ?B\<rparr>"
    from False Suc.prems have n: "SerialIterator_next it []
        = Inr (take ?B (drop ?i (it_dataset it)), ?it')"
      by (simp add: SerialIterator_next_def Let_def py_slice_def)
    from False Suc.prems have "length (it_dataset ?it') - current_position ?it' + 2 \<le> fuel"
      by simp
    with Suc.IH[of ?it'] Suc.prems obtain bs where
      bs: "all_batches fuel ?it' = Some bs" "concat bs = drop (?i + ?B) (it_dataset it)"
      by auto
    have "take ?B (drop ?i (it_dataset it)) @ drop (?i + ?B) (it_dataset it)
        = drop ?i (it_dataset it)"
      by (metis add.commute append_take_drop_id drop_drop)
    with n bs show ?thesis by simp
  qed
qed

section \<open>The claims\<close>

text \<open>
  Claim C1 says that the forward pass computes the specification's pipeline for every input
  batch of shape \<open>(batch, 1, 28, 28)\<close>. It does not on the empty batch: the code raises
  \<open>ValueError\<close> in \<^verbatim>\<open>self.fc1(h)\<close>, where the pipeline returns an array of shape
  \<open>(0, 10)\<close>.
\<close>

theorem forward_is_spec_pipeline_empty_batch:
  "LeNet5_declared zero_model \<and> valid empty_batch \<and> shape empty_batch = [0, 1, 28, 28]
   \<and> fst (LeNet5_call empty_batch zero_model) = Inl ValueError
   \<and> result_shape (spec_pipeline zero_model empty_batch) = Inr [0, 10]
   \<and> fst (LeNet5_call empty_batch zero_model) \<noteq> spec_pipeline zero_model empty_batch"
proof -
  have code: "fst (LeNet5_call empty_batch zero_model) = Inl ValueError"
    by (rule empty_batch_raises[OF zero_model_declared empty_batch_shape])
  from spec_pipeline_returns[OF zero_model_declared empty_batch_shape] obtain y where
    y: "spec_pipeline zero_model empty_batch = Inr y" "shape y = [0, 10]"
    by blast
  then have "result_shape (spec_pipeline zero_model empty_batch) = Inr [0, 10]"
    by (simp add: result_shape_def)
  with code y(1) zero_model_declared empty_batch_valid empty_batch_shape show ?thesis
    by simp
qed

text \<open>
  Claim C1, amended. For every input batch of shape \<open>(batch, 1, 28, 28)\<close> with at least one
  image, the forward pass \<^verbatim>\<open>LeNet5.__call__\<close> returns exactly what the specification's
  pipeline returns, and the pipeline does return an array: pad to \<open>32 \<times> 32\<close>, convolution
  1\<rightarrow>6 with kernel 5 and no padding, tanh, max-pool 2, convolution 6\<rightarrow>16 with kernel 5, tanh,
  max-pool 2, flatten, linear 400\<rightarrow>120, tanh, linear 120\<rightarrow>84, tanh, linear 84\<rightarrow>10. The code's
  first convolution pads by 2 itself (\<open>conv_pad_fused\<close> is the equivalence), and its first
  linear layer flattens itself (\<open>linear_flatten\<close>).
\<close>

theorem forward_is_spec_pipeline:
  assumes "LeNet5_declared self" and "valid x" and "shape x = [n, 1, 28, 28]" and "0 < n"
  shows "fst (LeNet5_call x self) = spec_pipeline self x \<and> (\<exists>y. spec_pipeline self x = Inr y)"
proof (rule forward_trace_mnist[OF assms(1,3,4)])
  fix h1 h2 h3 h4 h5 h6 h7 h8 h9 h10 h11
  assume t: "Convolution2D_call (conv1 self) x = Inr h1" "F_tanh h1 = Inr h2"
    "F_max_pooling_2d 2 h2 = Inr h3" "Convolution2D_call (conv2 self) h3 = Inr h4"
    "F_tanh h4 = Inr h5" "F_max_pooling_2d 2 h5 = Inr h6" "Linear_call (fc1 self) h6 = Inr h7"
    "F_tanh h7 = Inr h8" "Linear_call (fc2 self) h8 = Inr h9" "F_tanh h9 = Inr h10"
    "Linear_call (fc3 self) h10 = Inr h11"
    and s: "shape h6 = [n, 16, 5, 5]" "shape h8 = [n, 120]" "shape h10 = [n, 84]"
  from assms(1) have d: "conv_pad (conv1 self) = 2" "conv_pad (conv2 self) = 0"
    "shape (conv_W (conv1 self)) = [6, 1, 5, 5]" "shape (conv_W (conv2 self)) = [16, 6, 5, 5]"
    "shape (lin_W (fc1 self)) = [120, 400]" "shape (lin_W (fc2 self)) = [84, 120]"
    "shape (lin_W (fc3 self)) = [10, 84]"
    by (simp_all add: LeNet5_declared_def conv_declared_def linear_declared_def)
  have code: "fst (LeNet5_call x self) = Inr h11"
    using t by (simp add: LeNet5_call_layers LeNet5_layers_def)
  have x4: "ndim x = 4" using assms(3) by (simp add: ndim_def)
  have p: "pad_to 32 x = Inr (zero_pad 2 2 x)"
    using assms(3) by (simp add: pad_to_def ndim_def)
  have c1: "spec_conv 1 6 5 (conv1 self) (zero_pad 2 2 x) = Inr h1"
    using conv_pad_fused[OF x4, of "conv1 self"] t(1) d by (simp add: spec_conv_def)
  have e: "(conv2 self)\<lparr>conv_pad := 0\<rparr> = conv2 self"
    using d(2) by (metis Convolution2D.surjective Convolution2D.update_convs(3))
  have c2: "spec_conv 6 16 5 (conv2 self) h3 = Inr h4"
    unfolding spec_conv_def e using t(4) d(4) by simp
  have "2 \<le> ndim h6" "0 < shape h6 ! 0" using s(1) assms(4) by (simp_all add: ndim_def)
  from linear_flatten[OF this, of "fc1 self"] obtain h6' where
    f: "flatten h6 = Inr h6'" "ndim h6' = 2" "Linear_call (fc1 self) h6' = Linear_call (fc1 self) h6"
    by blast
  then have l1: "spec_linear 400 120 (fc1 self) h6' = Inr h7"
    using t(7) d by (simp add: spec_linear_def)
  have l2: "spec_linear 120 84 (fc2 self) h8 = Inr h9"
    using t(9) d s(2) by (simp add: spec_linear_def ndim_def)
  have l3: "spec_linear 84 10 (fc3 self) h10 = Inr h11"
    using t(11) d s(3) by (simp add: spec_linear_def ndim_def)
  have "spec_pipeline self x = Inr h11"
    by (simp only: spec_pipeline_def next_layer_Inr p c1 c2 f(1) l1 l2 l3 t)
  with code show ?thesis by simp
qed

theorem forward_is_spec_pipeline_witness:
  "LeNet5_declared zero_model \<and> valid blank_batch \<and> shape blank_batch = [2, 1, 28, 28]
   \<and> (0::nat) < 2
   \<and> fst (LeNet5_call blank_batch zero_model) = spec_pipeline zero_model blank_batch
   \<and> (\<exists>y. spec_pipeline zero_model blank_batch = Inr y)"
proof -
  have pos: "(0::nat) < 2" by simp
  from forward_is_spec_pipeline[OF zero_model_declared blank_batch_valid blank_batch_shape pos]
    zero_model_declared blank_batch_valid blank_batch_shape
  show ?thesis by simp
qed

text \<open>
  Claim C2 says that the output has shape \<open>(batch, 10)\<close> for any batch size. For batch
  size 0 there is no output: the forward pass raises \<open>ValueError\<close>.
\<close>

theorem forward_shape_empty_batch:
  "LeNet5_declared zero_model \<and> valid empty_batch \<and> shape empty_batch = [0, 1, 28, 28]
   \<and> result_shape (fst (LeNet5_call empty_batch zero_model)) = Inl ValueError
   \<and> result_shape (fst (LeNet5_call empty_batch zero_model)) \<noteq> Inr [0, 10]"
  using empty_batch_raises[OF zero_model_declared empty_batch_shape]
    zero_model_declared empty_batch_valid empty_batch_shape
  by (simp add: result_shape_def)

text \<open>
  Claim C2, amended. For every input batch of shape \<open>(batch, 1, 28, 28)\<close>, for any batch
  size of at least one, the forward pass returns an array, and its shape is \<open>(batch, 10)\<close>.
\<close>

theorem forward_shape:
  assumes "LeNet5_declared self" and "valid x" and "shape x = [n, 1, 28, 28]" and "0 < n"
  shows "\<exists>y. fst (LeNet5_call x self) = Inr y \<and> shape y = [n, 10] \<and> valid y"
proof (rule forward_trace_mnist[OF assms(1,3,4)])
  fix h1 h2 h3 h4 h5 h6 h7 h8 h9 h10 h11
  assume "Convolution2D_call (conv1 self) x = Inr h1" "F_tanh h1 = Inr h2"
    "F_max_pooling_2d 2 h2 = Inr h3" "Convolution2D_call (conv2 self) h3 = Inr h4"
    "F_tanh h4 = Inr h5" "F_max_pooling_2d 2 h5 = Inr h6" "Linear_call (fc1 self) h6 = Inr h7"
    "F_tanh h7 = Inr h8" "Linear_call (fc2 self) h8 = Inr h9" "F_tanh h9 = Inr h10"
    "Linear_call (fc3 self) h10 = Inr h11" "shape h11 = [n, 10]" "valid h11"
  then show ?thesis
    by (simp add: LeNet5_call_layers LeNet5_layers_def)
qed

theorem forward_shape_witness:
  "LeNet5_declared zero_model \<and> valid blank_batch \<and> shape blank_batch = [2, 1, 28, 28]
   \<and> (0::nat) < 2
   \<and> (\<exists>y. fst (LeNet5_call blank_batch zero_model) = Inr y \<and> shape y = [2, 10] \<and> valid y)"
proof -
  have pos: "(0::nat) < 2" by simp
  from forward_shape[OF zero_model_declared blank_batch_valid blank_batch_shape pos]
    zero_model_declared blank_batch_valid blank_batch_shape
  show ?thesis by simp
qed

text \<open>
  Claim C3 says that every registered extension, the snapshot in particular, runs at each
  epoch boundary of the 10-epoch run. The evaluator, the log report and the two plot reports
  do. The snapshot does not: the notebook registers it with \<^verbatim>\<open>trigger=(epoch, 'epoch')\<close>
  and \<^verbatim>\<open>epoch = 10\<close>, under the comment "Take a snapshot at each epoch", so it runs
  at the boundaries whose epoch number is a multiple of ten: of the boundaries 1 to 10 of
  the run, at the tenth only. At the first boundary (iteration 469 with 60000 samples in
  batches of 128) the trainer runs the other extensions and no snapshot.
\<close>

theorem snapshot_only_at_tenth_epoch:
  "(snapshot \<in> set (dispatched (epoch_boundary e i))) = (e mod 10 = 0)
   \<and> list_all (\<lambda>extension. extension \<in> set (dispatched (epoch_boundary e i)))
        [Evaluator, LogReport, PlotReport ''loss.png'', PlotReport ''accuracy.png'']
   \<and> dispatched (epoch_boundary 1 469)
       = [Evaluator, LogReport, PlotReport ''loss.png'', PlotReport ''accuracy.png'', PrintReport]
   \<and> filter (\<lambda>e. snapshot \<in> set (dispatched (epoch_boundary e i))) [1..<epoch + 1] = [10]"
proof -
  have 1: "(snapshot \<in> set (dispatched (epoch_boundary e i))) = (e mod 10 = 0)" for e
    by (simp add: dispatched_def extensions_def entry_trigger_def epoch_boundary_def epoch_def)
  have 2: "dispatched (epoch_boundary 1 469)
       = [Evaluator, LogReport, PlotReport ''loss.png'', PlotReport ''accuracy.png'', PrintReport]"
    by (simp add: dispatched_def extensions_def entry_trigger_def epoch_boundary_def epoch_def)
  have "[1..<epoch + 1] = [1, 2, 3, 4, 5, 6, 7, 8, 9, 10]"
    by (simp add: epoch_def upt_rec)
  then have 3: "filter (\<lambda>e. snapshot \<in> set (dispatched (epoch_boundary e i))) [1..<epoch + 1] = [10]"
    by (simp add: 1)
  have 4: "list_all (\<lambda>extension. extension \<in> set (dispatched (epoch_boundary e i)))
        [Evaluator, LogReport, PlotReport ''loss.png'', PlotReport ''accuracy.png'']"
    by (simp add: dispatched_def extensions_def entry_trigger_def epoch_boundary_def epoch_def)
  from 1 2 3 4 show ?thesis by simp
qed




text \<open>
  Claim C5. Evaluating the forward pass, on any input and whether it returns or raises,
  leaves the object, and so each of the ten parameter arrays (two kernels and three matrices
  with their biases), unchanged.
\<close>

theorem forward_keeps_parameters: "snd (LeNet5_call x self) = self"
  by (simp add: LeNet5_call_def and_then_def call_link_def call_function_def split: sum.splits)

theorem forward_keeps_parameters_witness:
  "snd (LeNet5_call blank_batch zero_model) = zero_model
   \<and> snd (LeNet5_call rgb_batch zero_model) = zero_model"
  using forward_keeps_parameters[of blank_batch zero_model]
    forward_keeps_parameters[of rgb_batch zero_model]
  by simp

text \<open>
  Claim C6. Every batch the training iterator hands out has exactly 128 samples, however
  many batches are asked for and whatever permutations it draws, provided the training set
  has at least 128 samples (MNIST has 60000). The evaluation iterator does not shuffle, and
  its batches up to \<open>StopIteration\<close>, joined in order, are the test set: each sample once,
  in the original order.
\<close>

theorem iterators_batches:
  assumes "batchsize \<le> length train_set"
    and "is_permutation (length train_set) permutation"
    and "list_all (is_permutation (length train_set)) ps"
  shows "length (next_batches (train_iter train_set permutation) ps) = length ps
       \<and> list_all (\<lambda>batch. length batch = 128) (next_batches (train_iter train_set permutation) ps)
       \<and> it_order (test_iter test_set) = None
       \<and> (\<exists>bs. all_batches (length test_set + 2) (test_iter test_set) = Some bs
              \<and> concat bs = test_set)"
proof -
  let ?it = "train_iter train_set permutation"
  from assms(1) have pos: "current_position ?it < length train_set"
    by (auto simp: train_iter_def SerialIterator_init_def batchsize_def)
  from assms(3) have ps: "list_all (\<lambda>p. length p = length train_set) ps"
    by (simp add: list_all_iff is_permutation_length)
  have "length (next_batches ?it ps) = length ps
       \<and> list_all (\<lambda>batch. length batch = batchsize) (next_batches ?it ps)"
    using assms(1) pos ps is_permutation_length[OF assms(2)]
    by (intro next_batches_train[where ord = permutation and N = "length train_set"])
       (simp_all add: train_iter_def SerialIterator_init_def)
  moreover have "\<exists>bs. all_batches (length test_set + 2) (test_iter test_set) = Some bs
      \<and> concat bs = drop (current_position (test_iter test_set)) (it_dataset (test_iter test_set))"
    by (intro all_batches_once) (simp_all add: test_iter_def SerialIterator_init_def batchsize_def)
  ultimately show ?thesis
    by (simp add: batchsize_def test_iter_def SerialIterator_init_def)
qed

theorem iterators_batches_witness:
  "batchsize \<le> length [0..<200::nat]
   \<and> is_permutation (length [0..<200::nat]) [0..<200]
   \<and> list_all (is_permutation (length [0..<200::nat])) [[0..<200], [0..<200], [0..<200]]
   \<and> length (next_batches (train_iter [0..<200::nat] [0..<200]) [[0..<200], [0..<200], [0..<200]]) = 3
   \<and> list_all (\<lambda>batch. length batch = 128)
        (next_batches (train_iter [0..<200::nat] [0..<200]) [[0..<200], [0..<200], [0..<200]])
   \<and> (\<exists>bs. all_batches (length [0..<300::nat] + 2) (test_iter [0..<300::nat]) = Some bs
          \<and> concat bs = [0..<300])"
proof -
  have 1: "batchsize \<le> length [0..<200::nat]" by (simp add: batchsize_def)
  have 2: "is_permutation (length [0..<200::nat]) [0..<200]"
    by (simp add: is_permutation_upt)
  have 3: "list_all (is_permutation (length [0..<200::nat])) [[0..<200], [0..<200], [0..<200]]"
    by (simp add: is_permutation_upt)
  from iterators_batches[OF 1 2 3, of "[0..<300::nat]"] 1 2 3 show ?thesis
    by simp
qed

text \<open>
  Claim C9. The result of the forward pass does not depend on the attribute
  \<^verbatim>\<open>self.train\<close>: it is the same with the flag set to \<open>True\<close> and to \<open>False\<close>, and
  setting the flag to any value does not change it.
\<close>

theorem forward_ignores_train:
  "fst (LeNet5_call x (self\<lparr>train := True\<rparr>)) = fst (LeNet5_call x (self\<lparr>train := False\<rparr>))
   \<and> fst (LeNet5_call x (self\<lparr>train := flag\<rparr>)) = fst (LeNet5_call x self)"
  by (simp add: LeNet5_call_layers LeNet5_layers_def)

theorem forward_ignores_train_witness:
  "fst (LeNet5_call blank_batch (zero_model\<lparr>train := True\<rparr>))
     = fst (LeNet5_call blank_batch (zero_model\<lparr>train := False\<rparr>))"
  using forward_ignores_train[of blank_batch zero_model] by simp

text \<open>
  Claim C10. For every input batch and every parameter values: each activation of the
  forward pass that a tanh produces (after layers 2, 5, 8 and 10 of the sequence) and each
  that the max-pool after a tanh produces (after layers 3 and 6) has all its elements
  between -1 and 1, bounds included. The activation after layer 10 is the array that
  \<^verbatim>\<open>fc3\<close> receives, and on an input of shape \<open>(batch, 1, 28, 28)\<close> with at least one
  image the forward pass does reach it.
\<close>

theorem activations_within_unit:
  "(apply_layers (take 2 (LeNet5_layers self)) x = Inr h \<longrightarrow> within_unit h)
   \<and> (apply_layers (take 3 (LeNet5_layers self)) x = Inr h \<longrightarrow> within_unit h)
   \<and> (apply_layers (take 5 (LeNet5_layers self)) x = Inr h \<longrightarrow> within_unit h)
   \<and> (apply_layers (take 6 (LeNet5_layers self)) x = Inr h \<longrightarrow> within_unit h)
   \<and> (apply_layers (take 8 (LeNet5_layers self)) x = Inr h \<longrightarrow> within_unit h)
   \<and> (apply_layers (take 10 (LeNet5_layers self)) x = Inr h \<longrightarrow> within_unit h)
   \<and> fst (LeNet5_call x self)
       = (case apply_layers (take 10 (LeNet5_layers self)) x of
            Inl e \<Rightarrow> Inl e | Inr h10 \<Rightarrow> Linear_call (fc3 self) h10)
   \<and> (LeNet5_declared self \<and> valid x \<and> shape x = [n, 1, 28, 28] \<and> 0 < n
        \<longrightarrow> (\<exists>h10. apply_layers (take 10 (LeNet5_layers self)) x = Inr h10))"
proof (intro conjI impI)
  assume "apply_layers (take 2 (LeNet5_layers self)) x = Inr h"
  then show "within_unit h"
    by (auto simp: LeNet5_layers_def split: sum.splits dest: tanh_output)
next
  assume "apply_layers (take 3 (LeNet5_layers self)) x = Inr h"
  then show "within_unit h"
    by (auto simp: LeNet5_layers_def split: sum.splits dest: conv_tanh_pool_within_unit)
next
  assume "apply_layers (take 5 (LeNet5_layers self)) x = Inr h"
  then show "within_unit h"
    by (auto simp: LeNet5_layers_def split: sum.splits dest: tanh_output)
next
  assume "apply_layers (take 6 (LeNet5_layers self)) x = Inr h"
  then show "within_unit h"
    by (auto simp: LeNet5_layers_def split: sum.splits dest: conv_tanh_pool_within_unit)
next
  assume "apply_layers (take 8 (LeNet5_layers self)) x = Inr h"
  then show "within_unit h"
    by (auto simp: LeNet5_layers_def split: sum.splits dest: tanh_output)
next
  assume "apply_layers (take 10 (LeNet5_layers self)) x = Inr h"
  then show "within_unit h"
    by (auto simp: LeNet5_layers_def split: sum.splits dest: tanh_output)
next
  show "fst (LeNet5_call x self)
       = (case apply_layers (take 10 (LeNet5_layers self)) x of
            Inl e \<Rightarrow> Inl e | Inr h10 \<Rightarrow> Linear_call (fc3 self) h10)"
    by (simp add: LeNet5_call_layers LeNet5_layers_def split: sum.splits)
next
  assume "LeNet5_declared self \<and> valid x \<and> shape x = [n, 1, 28, 28] \<and> 0 < n"
  then have d: "LeNet5_declared self" and s: "shape x = [n, 1, 28, 28]" and n: "0 < n"
    by simp_all
  show "\<exists>h10. apply_layers (take 10 (LeNet5_layers self)) x = Inr h10"
  proof (rule forward_trace_mnist[OF d s n])
    fix h1 h2 h3 h4 h5 h6 h7 h8 h9 h10 h11
    assume "Convolution2D_call (conv1 self) x = Inr h1" "F_tanh h1 = Inr h2"
      "F_max_pooling_2d 2 h2 = Inr h3" "Convolution2D_call (conv2 self) h3 = Inr h4"
      "F_tanh h4 = Inr h5" "F_max_pooling_2d 2 h5 = Inr h6" "Linear_call (fc1 self) h6 = Inr h7"
      "F_tanh h7 = Inr h8" "Linear_call (fc2 self) h8 = Inr h9" "F_tanh h9 = Inr h10"
    then show ?thesis
      by (simp add: LeNet5_layers_def)
  qed
qed

theorem activations_within_unit_witness:
  "LeNet5_declared zero_model \<and> valid blank_batch \<and> shape blank_batch = [2, 1, 28, 28]
   \<and> (\<exists>h2 h3 h5 h6 h8 h10.
         apply_layers (take 2 (LeNet5_layers zero_model)) blank_batch = Inr h2 \<and> within_unit h2
       \<and> apply_layers (take 3 (LeNet5_layers zero_model)) blank_batch = Inr h3 \<and> within_unit h3
       \<and> apply_layers (take 5 (LeNet5_layers zero_model)) blank_batch = Inr h5 \<and> within_unit h5
       \<and> apply_layers (take 6 (LeNet5_layers zero_model)) blank_batch = Inr h6 \<and> within_unit h6
       \<and> apply_layers (take 8 (LeNet5_layers zero_model)) blank_batch = Inr h8 \<and> within_unit h8
       \<and> apply_layers (take 10 (LeNet5_layers zero_model)) blank_batch = Inr h10
       \<and> within_unit h10
       \<and> fst (LeNet5_call blank_batch zero_model) = Linear_call (fc3 zero_model) h10)"
proof (rule forward_trace_mnist[OF zero_model_declared blank_batch_shape])
  show "(0::nat) < 2" by simp
next
  fix h1 h2 h3 h4 h5 h6 h7 h8 h9 h10 h11
  assume "Convolution2D_call (conv1 zero_model) blank_batch = Inr h1" "F_tanh h1 = Inr h2"
    "F_max_pooling_2d 2 h2 = Inr h3" "Convolution2D_call (conv2 zero_model) h3 = Inr h4"
    "F_tanh h4 = Inr h5" "F_max_pooling_2d 2 h5 = Inr h6"
    "Linear_call (fc1 zero_model) h6 = Inr h7" "F_tanh h7 = Inr h8"
    "Linear_call (fc2 zero_model) h8 = Inr h9" "F_tanh h9 = Inr h10"
  then have p: "apply_layers (take 2 (LeNet5_layers zero_model)) blank_batch = Inr h2"
    "apply_layers (take 3 (LeNet5_layers zero_model)) blank_batch = Inr h3"
    "apply_layers (take 5 (LeNet5_layers zero_model)) blank_batch = Inr h5"
    "apply_layers (take 6 (LeNet5_layers zero_model)) blank_batch = Inr h6"
    "apply_layers (take 8 (LeNet5_layers zero_model)) blank_batch = Inr h8"
    "apply_layers (take 10 (LeNet5_layers zero_model)) blank_batch = Inr h10"
    by (simp_all add: LeNet5_layers_def)
  from p(1) activations_within_unit[of zero_model blank_batch h2 2] have u2: "within_unit h2"
    by blast
  from p(2) activations_within_unit[of zero_model blank_batch h3 2] have u3: "within_unit h3"
    by blast
  from p(3) activations_within_unit[of zero_model blank_batch h5 2] have u5: "within_unit h5"
    by blast
  from p(4) activations_within_unit[of zero_model blank_batch h6 2] have u6: "within_unit h6"
    by blast
  from p(5) activations_within_unit[of zero_model blank_batch h8 2] have u8: "within_unit h8"
    by blast
  from p(6) activations_within_unit[of zero_model blank_batch h10 2]
  have u10: "within_unit h10"
    and r: "fst (LeNet5_call blank_batch zero_model) = Linear_call (fc3 zero_model) h10"
    by simp_all
  from p u2 u3 u5 u6 u8 u10 r zero_model_declared blank_batch_valid blank_batch_shape
  show ?thesis by blast
qed

end
